theory Spec2Isabelle
  imports Complex_Main "HOL-Library.Multiset"
begin

section \<open>Data model\<close>

text \<open>
  The rows of the \<open>driver_locations\<close> and \<open>passenger_locations\<close> tables
  (\<open>supabase/migrations\<close>) and the \<open>DriverLocation\<close> / \<open>PassengerLocation\<close>
  interfaces of \<open>@/types\<close>. The two tables share every column except the actor
  column, so the common columns are one record that each table extends; the position
  columns are the fields of \<open>GeolocationPosition.coords\<close> that the writers copy. The primary key
  \<open>id\<close> is called \<open>row_id\<close> here. \<open>updated_at\<close> is the stored
  \<open>TIMESTAMP WITH TIME ZONE\<close> as a count of time units since the epoch: the store orders
  by it, and the client turns it into a \<open>Date\<close> before comparing.
\<close>

record Coords =
  latitude :: real
  longitude :: real
  heading :: "real option"
  speed :: "real option"

record Location = Coords +
  row_id :: string
  trip_id :: "string option"
  updated_at :: nat

record DriverLocation = Location +
  driver_id :: string

record PassengerLocation = Location +
  passenger_id :: string

text \<open>
  What \<open>await supabase.from(t).select('*').order(...)\<close> gives back: the promise
  resolves to \<open>{ data, error }\<close>, or it rejects.
\<close>

datatype 'a query_result =
    Resolved (resp_data: "'a option") (resp_error: "string option")
  | Threw string

text \<open>
  The \<open>trips\<close> and \<open>bookings\<close> tables with their status enums
  (\<open>trip_status\<close>, \<open>booking_status\<close> of the first migration; interfaces \<open>Trip\<close>
  and \<open>Booking\<close> of \<open>@/types\<close>). Column names that another table also has carry
  the table's name as a suffix; the trip status \<open>cancelled\<close> is \<open>trip_cancelled\<close>.
\<close>

datatype trip_status = scheduled | active | completed | trip_cancelled

datatype booking_status = pending | accepted | rejected | cancelled

record Trip =
  id_trip :: string
  driver_id_trip :: string
  start_location :: string
  destination :: string
  start_lat :: "real option"
  start_lng :: "real option"
  dest_lat :: "real option"
  dest_lng :: "real option"
  departure_time :: nat
  available_seats :: int
  price_per_seat :: "real option"
  status_trip :: trip_status
  description :: "string option"
  created_at_trip :: nat
  updated_at_trip :: nat

record Booking =
  id_booking :: string
  trip_id_booking :: string
  passenger_id_booking :: string
  seats_requested :: int
  status_booking :: booking_status
  message :: "string option"
  created_at_booking :: nat
  updated_at_booking :: nat

text \<open>
  What the pages show and send, and the backing store. \<open>toast.error\<close> and
  \<open>toast.success\<close> append to \<open>toasts\<close>, \<open>console.error\<close> and \<open>console.warn\<close>
  to \<open>console\<close>. Every write the client sends to the store and every
  \<open>supabase.functions.invoke\<close> is appended to \<open>requests\<close>, in the order of the
  calls. The \<open>tbl_\<close> fields are the tables of the store.
\<close>

datatype toast = toast_error string | toast_success string

datatype request =
    Insert string "string option" "unit Coords_scheme"
  | Upsert string "string option" "unit Coords_scheme" string
  | InsertBooking string string int "string option" booking_status
  | UpdateBooking string booking_status
  | InsertTrip string string string nat int "real option" "string option" trip_status
  | Invoke string string string

record App =
  toasts :: "toast list"
  console :: "string list"
  requests :: "request list"
  tbl_driver_locations :: "DriverLocation list"
  tbl_passenger_locations :: "PassengerLocation list"
  tbl_trips :: "Trip list"
  tbl_bookings :: "Booking list"

text \<open>
  The store's answer to a write: it stores the row, choosing the columns the client left
  to their defaults (\<open>gen_random_uuid()\<close> for the key, \<open>now()\<close> for the timestamps),
  or it refuses (row-level security, a constraint) and answers with an error.
\<close>

datatype store_reply = Stored string nat | Refused string

section \<open>Location Store: the latest-per-actor query\<close>

text \<open>
  \<open>.order('updated_at', { ascending: false })\<close>: the store answers with the rows of the
  table in descending order of \<open>updated_at\<close>; the order among equal timestamps is the
  store's choice. \<open>ordered_desc rows answer\<close> says that \<open>answer\<close> is such an answer
  for the table contents \<open>rows\<close>. \<open>order_desc\<close> is one such answer, computed.
\<close>

definition ordered_desc :: "('a Location_scheme) list \<Rightarrow> ('a Location_scheme) list \<Rightarrow> bool" where
  "ordered_desc rows answer \<longleftrightarrow>
     mset answer = mset rows \<and> sorted_wrt (\<lambda>a b. updated_at b \<le> updated_at a) answer"

definition order_desc :: "('a Location_scheme) list \<Rightarrow> ('a Location_scheme) list" where
  "order_desc rows = rev (sort_key updated_at rows)"

text \<open>
  \<open>Array.prototype.indexOf\<close>: the first index holding the element, \<open>-1\<close> when there is
  none. \<open>acc[index] = current\<close>: an index inside the array replaces that element; the
  index \<open>-1\<close> names a property, not an element, and the elements stay as they are.
  (\<open>indexOf\<close> never returns an index at or beyond the length.) JavaScript compares
  the objects by identity; \<open>indexOf\<close> is only called with the row that \<open>find\<close> has
  just returned, where comparing the rows by value gives the same index (lemma
  \<open>indexOf_found\<close>).
\<close>

fun indexOf :: "'a list \<Rightarrow> 'a \<Rightarrow> int" where
  "indexOf [] x = - 1"
| "indexOf (y # ys) x =
     (if y = x then 0 else (let i = indexOf ys x in if i < 0 then - 1 else i + 1))"

definition assign_index :: "'a list \<Rightarrow> int \<Rightarrow> 'a \<Rightarrow> 'a list" where
  "assign_index acc i v = (if 0 \<le> i \<and> nat i < length acc then acc[nat i := v] else acc)"

text \<open>
  The reduce callback of \<open>EnhancedMapComponent.fetchDriverLocations\<close> (both copies):
  \<^verbatim>\<open>if (!acc.find(l => l.driver_id === location.driver_id)) acc.push(location); return acc;\<close>
\<close>

definition first_seen_step :: "('r \<Rightarrow> string) \<Rightarrow> 'r list \<Rightarrow> 'r \<Rightarrow> 'r list" where
  "first_seen_step key acc location =
     (case find (\<lambda>l. key l = key location) acc of
        None \<Rightarrow> acc @ [location]
      | Some _ \<Rightarrow> acc)"

text \<open>
  The reduce callback of \<open>MapComponent.fetchDriverLocations\<close> and of
  \<open>fetchPassengerLocations\<close>:
  \<^verbatim>\<open>
  const existing = acc.find(loc => loc.driver_id === current.driver_id);
  if (!existing || new Date(current.updated_at) > new Date(existing.updated_at)) {
    if (existing) { const index = acc.indexOf(existing); acc[index] = current; }
    else { acc.push(current); }
  }
  return acc;
  \<close>
  \<open>toDate\<close> is \<open>new Date(...)\<close> read as a number, which is how \<open>>\<close> compares
  two dates; it is \<open>None\<close> for an invalid date (\<open>NaN\<close>), and every comparison with
  \<open>NaN\<close> is false.
\<close>

definition later :: "nat option \<Rightarrow> nat option \<Rightarrow> bool" where
  "later a b = (case (a, b) of (Some x, Some y) \<Rightarrow> x > y | _ \<Rightarrow> False)"

definition replace_step ::
  "('r \<Rightarrow> string) \<Rightarrow> (nat \<Rightarrow> nat option) \<Rightarrow> ('r \<Rightarrow> nat) \<Rightarrow> 'r list \<Rightarrow> 'r \<Rightarrow> 'r list" where
  "replace_step key toDate stamp acc current =
     (case find (\<lambda>loc. key loc = key current) acc of
        None \<Rightarrow> acc @ [current]
      | Some existing \<Rightarrow>
          if later (toDate (stamp current)) (toDate (stamp existing))
          then assign_index acc (indexOf acc existing) current
          else acc)"

text \<open>
  What is assumed of \<open>new Date\<close>: on the timestamps it can read, a later stored
  timestamp never gives an earlier date.
\<close>

definition monotone_dates :: "(nat \<Rightarrow> nat option) \<Rightarrow> bool" where
  "monotone_dates toDate \<longleftrightarrow>
     (\<forall>s t x y. s \<le> t \<and> toDate s = Some x \<and> toDate t = Some y \<longrightarrow> x \<le> y)"

text \<open>\<open>data.reduce(callback, [])\<close> is a left fold from the empty array.\<close>

definition reduce_first_seen :: "('r \<Rightarrow> string) \<Rightarrow> 'r list \<Rightarrow> 'r list" where
  "reduce_first_seen key rows = foldl (first_seen_step key) [] rows"

definition reduce_replace ::
  "('r \<Rightarrow> string) \<Rightarrow> (nat \<Rightarrow> nat option) \<Rightarrow> ('r \<Rightarrow> nat) \<Rightarrow> 'r list \<Rightarrow> 'r list" where
  "reduce_replace key toDate stamp rows = foldl (replace_step key toDate stamp) [] rows"

text \<open>The three reductions as the components call them.\<close>

definition EnhancedMapComponent_latestLocations :: "DriverLocation list \<Rightarrow> DriverLocation list" where
  "EnhancedMapComponent_latestLocations rows = reduce_first_seen driver_id rows"

definition MapComponent_latestLocations ::
  "(nat \<Rightarrow> nat option) \<Rightarrow> DriverLocation list \<Rightarrow> DriverLocation list" where
  "MapComponent_latestLocations toDate rows = reduce_replace driver_id toDate updated_at rows"

definition fetchPassengerLocations_latestLocations ::
  "(nat \<Rightarrow> nat option) \<Rightarrow> PassengerLocation list \<Rightarrow> PassengerLocation list" where
  "fetchPassengerLocations_latestLocations toDate rows =
     reduce_replace passenger_id toDate updated_at rows"

text \<open>
  What the latest-per-actor query promises about its output \<open>out\<close> for the table
  contents \<open>rows\<close>: one row per actor of \<open>rows\<close>, each a row of \<open>rows\<close> whose
  timestamp no row of the same actor exceeds.
\<close>

definition latest_per_actor ::
  "('r \<Rightarrow> string) \<Rightarrow> ('r \<Rightarrow> nat) \<Rightarrow> 'r list \<Rightarrow> 'r list \<Rightarrow> bool" where
  "latest_per_actor key stamp rows out \<longleftrightarrow>
     distinct (map key out) \<and>
     set (map key out) = set (map key rows) \<and>
     (\<forall>r \<in> set out. r \<in> set rows \<and> (\<forall>x \<in> set rows. key x = key r \<longrightarrow> stamp x \<le> stamp r))"

section \<open>Live Map Presenter\<close>

text \<open>
  The React state of the map components: \<open>driverLocations\<close>, \<open>passengerLocations\<close>
  and \<open>trips\<close> are what the markers and routes are drawn from.
\<close>

record Presenter = App +
  driverLocations :: "DriverLocation list"
  passengerLocations :: "PassengerLocation list"
  trips :: "Trip list"
  userPosition :: "(real \<times> real) option"

text \<open>
  \<open>fetchDriverLocations\<close> of \<open>EnhancedMapComponent\<close> (both copies):
  \<open>try { ... if (!error && data) setDriverLocations(reduce) } catch { console.error }\<close>.
\<close>

definition EnhancedMapComponent_fetchDriverLocations ::
  "DriverLocation list query_result \<Rightarrow> Presenter \<Rightarrow> Presenter" where
  "EnhancedMapComponent_fetchDriverLocations res s =
     (case res of
        Threw e \<Rightarrow> s\<lparr>console := console s @ [''Error fetching driver locations:'']\<rparr>
      | Resolved d err \<Rightarrow>
          (case d of
             Some rows \<Rightarrow>
               if err = None
               then s\<lparr>driverLocations := EnhancedMapComponent_latestLocations rows\<rparr>
               else s
           | None \<Rightarrow> s))"

text \<open>
  \<open>fetchDriverLocations\<close> of \<open>MapComponent\<close>: no \<open>try\<close>, so a rejected query leaves
  the function as an exception (\<open>Inl\<close>); \<open>if (data)\<close> does not look at \<open>error\<close>.
\<close>

definition MapComponent_fetchDriverLocations ::
  "(nat \<Rightarrow> nat option) \<Rightarrow> DriverLocation list query_result \<Rightarrow> Presenter \<Rightarrow> string + Presenter" where
  "MapComponent_fetchDriverLocations toDate res s =
     (case res of
        Threw e \<Rightarrow> Inl e
      | Resolved d err \<Rightarrow>
          (case d of
             Some rows \<Rightarrow> Inr (s\<lparr>driverLocations := MapComponent_latestLocations toDate rows\<rparr>)
           | None \<Rightarrow> Inr s))"

text \<open>\<open>fetchPassengerLocations\<close>: \<open>try { ... if (data) setPassengerLocations(reduce) } catch { console.error }\<close>.\<close>

definition fetchPassengerLocations ::
  "(nat \<Rightarrow> nat option) \<Rightarrow> PassengerLocation list query_result \<Rightarrow> Presenter \<Rightarrow> Presenter" where
  "fetchPassengerLocations toDate res s =
     (case res of
        Threw e \<Rightarrow> s\<lparr>console := console s @ [''Error fetching passenger locations:'']\<rparr>
      | Resolved d err \<Rightarrow>
          (case d of
             Some rows \<Rightarrow>
               s\<lparr>passengerLocations := fetchPassengerLocations_latestLocations toDate rows\<rparr>
           | None \<Rightarrow> s))"

text \<open>
  The mapping from actor id to location row that a reduced list stands for (the markers are
  keyed by \<open>driver_id\<close>).
\<close>

definition actor_mapping :: "DriverLocation list \<Rightarrow> (string \<rightharpoonup> DriverLocation)" where
  "actor_mapping out = map_of (map (\<lambda>r. (driver_id r, r)) out)"

subsection \<open>Viewport recentering\<close>

text \<open>
  A JavaScript computation either throws (\<open>Inl\<close>, with the exception) or returns
  (\<open>Inr\<close>). \<open>try { body } catch (e) { handler }\<close>:
\<close>

definition try_catch :: "string + 'a \<Rightarrow> (string \<Rightarrow> string + 'a) \<Rightarrow> string + 'a" where
  "try_catch body handler = (case body of Inl e \<Rightarrow> handler e | Inr v \<Rightarrow> Inr v)"

text \<open>
  The map widget (Leaflet, behind \<open>mapRef.current\<close>) is not part of the repository: its
  methods are parameters, functions from the widget's state to an exception or the new
  state. \<open>mapRef\<close> is \<open>None\<close> while \<open>mapRef.current\<close> is \<open>null\<close>.

  \<open>MapComponent\<close> and the first \<open>EnhancedMapComponent\<close>:
  \<^verbatim>\<open>if (userPosition && mapRef.current) { try { mapRef.current.setView(userPosition, 15); } catch {} }\<close>
\<close>

definition center_on_user ::
  "('m \<Rightarrow> real \<times> real \<Rightarrow> nat \<Rightarrow> string + 'm) \<Rightarrow> 'm option \<Rightarrow> Presenter
     \<Rightarrow> string + ('m option \<times> Presenter)" where
  "center_on_user setView mapRef s =
     (case (userPosition s, mapRef) of
        (Some pos, Some m) \<Rightarrow>
          try_catch
            (case setView m pos 15 of Inl e \<Rightarrow> Inl e | Inr m' \<Rightarrow> Inr (Some m', s))
            (\<lambda>e. Inr (Some m, s))
      | _ \<Rightarrow> Inr (mapRef, s))"

text \<open>
  The second \<open>EnhancedMapComponent\<close> (lines 187-216). A coordinate of the trip is
  truthy when it is present and not zero. The effect returns the widget, the bounds it has
  handed to \<open>setTimeout\<close> (none or one), and the presenter.
\<close>

type_synonym bounds = "(real \<times> real) \<times> (real \<times> real)"

definition viewport_effect ::
  "('m \<Rightarrow> real \<times> real \<Rightarrow> nat \<Rightarrow> string + 'm) \<Rightarrow> 'm option \<Rightarrow> Trip option \<Rightarrow> Presenter
     \<Rightarrow> string + ('m option \<times> bounds list \<times> Presenter)" where
  "viewport_effect setView mapRef selectedTrip s =
     (case mapRef of
        None \<Rightarrow> Inr (None, [], s)
      | Some m \<Rightarrow>
          try_catch
            (case selectedTrip of
               Some t \<Rightarrow>
                 (case (start_lat t, start_lng t, dest_lat t, dest_lng t) of
                    (Some a, Some b, Some c, Some d) \<Rightarrow>
                      if a \<noteq> 0 \<and> b \<noteq> 0 \<and> c \<noteq> 0 \<and> d \<noteq> 0
                      then Inr (Some m, [((a, b), (c, d))], s)
                      else Inr (Some m, [], s)
                  | _ \<Rightarrow> Inr (Some m, [], s))
             | None \<Rightarrow>
                 (case userPosition s of
                    Some pos \<Rightarrow>
                      (case setView m pos 15 of
                         Inl e \<Rightarrow> Inl e
                       | Inr m' \<Rightarrow> Inr (Some m', [], s))
                  | None \<Rightarrow> Inr (Some m, [], s)))
            (\<lambda>e. Inr (Some m, [], s\<lparr>console := console s @ [''Map update error:'']\<rparr>)))"

text \<open>
  The callback given to \<open>setTimeout\<close>, run 100 ms later with whatever \<open>mapRef.current\<close>
  is by then; calling a method of \<open>null\<close> throws a \<open>TypeError\<close>.
  \<^verbatim>\<open>try { mapRef.current.fitBounds(bounds, { padding: [50, 50], maxZoom: 15 }); } catch (e) { console.warn(...) }\<close>
\<close>

definition fitBounds_timeout ::
  "('m \<Rightarrow> bounds \<Rightarrow> nat \<times> nat \<Rightarrow> nat \<Rightarrow> string + 'm) \<Rightarrow> 'm option \<Rightarrow> bounds \<Rightarrow> Presenter
     \<Rightarrow> string + ('m option \<times> Presenter)" where
  "fitBounds_timeout fitBounds mapRef b s =
     try_catch
       (case mapRef of
          None \<Rightarrow> Inl ''TypeError''
        | Some m \<Rightarrow>
            (case fitBounds m b (50, 50) 15 of
               Inl e \<Rightarrow> Inl e
             | Inr m' \<Rightarrow> Inr (Some m', s)))
       (\<lambda>e. Inr (mapRef, s\<lparr>console := console s @ [''Map bounds error:'']\<rparr>))"

text \<open>What the markers and routes are drawn from.\<close>

definition markers :: "Presenter \<Rightarrow> DriverLocation list \<times> PassengerLocation list \<times> Trip list" where
  "markers s = (driverLocations s, passengerLocations s, trips s)"

section \<open>Location Ingest: the dashboards\<close>

text \<open>
  What the browser offers: \<open>navigator.geolocation\<close> (present or not) and
  \<open>window.isSecureContext\<close>.
\<close>

record Browser =
  geolocation :: bool
  isSecureContext :: bool

text \<open>
  A dashboard: the React state \<open>isSharing\<close>, \<open>updatingBookingId\<close> and \<open>bookings\<close>,
  the global \<open>window.locationWatchId\<close> (\<open>None\<close> while the property is absent), and
  \<open>watchIDs\<close>, the watches that \<open>navigator.geolocation\<close> has running.
\<close>

record Dashboard = App +
  isSharing :: bool
  locationWatchId :: "nat option"
  watchIDs :: "nat list"
  updatingBookingId :: "string option"
  bookings :: "Booking list"

text \<open>
  The Geolocation API, as the W3C recommendation describes it: \<open>watchPosition\<close> starts a
  watch and returns its id, a number greater than zero that no running watch has;
  \<open>clearWatch\<close> stops the watch with that id and does nothing when there is none.
\<close>

definition watchPosition :: "Dashboard \<Rightarrow> nat \<times> Dashboard" where
  "watchPosition w =
     (let watchId = Suc (fold max (watchIDs w) 0)
      in (watchId, w\<lparr>watchIDs := watchIDs w @ [watchId]\<rparr>))"


text \<open>
  The store's side of \<open>.from('driver_locations').insert({...})\<close>: a stored row takes the
  position and the actor from the request and the defaults of the table for the rest;
  \<open>driver_id\<close> is \<open>NOT NULL\<close>, so a request without it is refused. The result is the
  \<open>error\<close> of the answer and the table afterwards.
\<close>

definition insert_driver_location ::
  "store_reply \<Rightarrow> string option \<Rightarrow> unit Coords_scheme \<Rightarrow> DriverLocation list
     \<Rightarrow> string option \<times> DriverLocation list" where
  "insert_driver_location reply actor c tbl =
     (case reply of
        Refused e \<Rightarrow> (Some e, tbl)
      | Stored rid now \<Rightarrow>
          (case actor of
             None \<Rightarrow> (Some ''null value in column driver_id'', tbl)
           | Some a \<Rightarrow>
               (None, tbl @ [\<lparr>latitude = latitude c, longitude = longitude c,
                               heading = heading c, speed = speed c, row_id = rid,
                               trip_id = None, updated_at = now, driver_id = a\<rparr>])))"

definition insert_passenger_location ::
  "store_reply \<Rightarrow> string option \<Rightarrow> unit Coords_scheme \<Rightarrow> PassengerLocation list
     \<Rightarrow> string option \<times> PassengerLocation list" where
  "insert_passenger_location reply actor c tbl =
     (case reply of
        Refused e \<Rightarrow> (Some e, tbl)
      | Stored rid now \<Rightarrow>
          (case actor of
             None \<Rightarrow> (Some ''null value in column passenger_id'', tbl)
           | Some a \<Rightarrow>
               (None, tbl @ [\<lparr>latitude = latitude c, longitude = longitude c,
                               heading = heading c, speed = speed c, row_id = rid,
                               trip_id = None, updated_at = now, passenger_id = a\<rparr>])))"

text \<open>
  The store's side of \<open>.upsert({...}, { onConflict: 'driver_id' })\<close>
  (\<open>INSERT ... ON CONFLICT (driver_id) DO UPDATE\<close>): when the driver has a row, the columns
  of the request overwrite it in place and the other columns stay; otherwise the row is
  inserted. (The store can only accept this with a unique index on \<open>driver_id\<close>, which
  leaves at most one row per driver; without one it refuses every such request.)
\<close>

definition upsert_driver_location ::
  "store_reply \<Rightarrow> string option \<Rightarrow> unit Coords_scheme \<Rightarrow> DriverLocation list
     \<Rightarrow> string option \<times> DriverLocation list" where
  "upsert_driver_location reply actor c tbl =
     (case reply of
        Refused e \<Rightarrow> (Some e, tbl)
      | Stored rid now \<Rightarrow>
          (case actor of
             None \<Rightarrow> (Some ''null value in column driver_id'', tbl)
           | Some a \<Rightarrow>
               if a \<in> driver_id ` set tbl
               then (None, map (\<lambda>r. if driver_id r = a
                                      then r\<lparr>latitude := latitude c, longitude := longitude c,
                                             heading := heading c, speed := speed c\<rparr>
                                      else r) tbl)
               else insert_driver_location reply actor c tbl))"

text \<open>
  The schema of the migration: \<open>driver_locations\<close> has its primary key \<open>id\<close> and no
  other unique index. Postgres refuses an \<open>ON CONFLICT (column)\<close> whose column has no
  unique index (error 42P10), whatever the row; with such an index the answer is the
  store's.
\<close>

definition driver_locations_unique :: "string list" where
  "driver_locations_unique = [''id'']"

definition on_conflict_reply :: "string list \<Rightarrow> string \<Rightarrow> store_reply \<Rightarrow> store_reply" where
  "on_conflict_reply unique_columns onConflict reply =
     (if onConflict \<in> set unique_columns then reply
      else Refused ''no unique or exclusion constraint matching the ON CONFLICT specification'')"

text \<open>
  \<open>startLocationSharing\<close> of the later \<open>DriverDashboard\<close> (\<open>unnamed/part_002\<close>).
  \<open>user\<close> is \<open>user?.id\<close>: \<open>None\<close> without a user, and the empty string is falsy too.
\<close>

definition part_002_startLocationSharing :: "Browser \<Rightarrow> string option \<Rightarrow> Dashboard \<Rightarrow> Dashboard" where
  "part_002_startLocationSharing nav user w =
     (if \<not> geolocation nav
      then w\<lparr>toasts := toasts w @ [toast_error ''Geolocation is not supported by this browser'']\<rparr>
      else if \<not> isSecureContext nav
      then w\<lparr>toasts := toasts w @
             [toast_error ''Location sharing requires HTTPS. Please use a secure connection.'']\<rparr>
      else if user = None \<or> user = Some []
      then w\<lparr>toasts := toasts w @ [toast_error ''Please sign in as a driver to share location'']\<rparr>
      else (let w1 = w\<lparr>isSharing := True\<rparr>;
                (watchId, w2) = watchPosition w1;
                w3 = w2\<lparr>toasts := toasts w2 @ [toast_success ''Location sharing started'']\<rparr>
            in w3\<lparr>locationWatchId := Some watchId\<rparr>))"

text \<open>The same function of \<open>PassengerDashboard\<close> (\<open>unnamed/part_003\<close>).\<close>

definition part_003_startLocationSharing :: "Browser \<Rightarrow> string option \<Rightarrow> Dashboard \<Rightarrow> Dashboard" where
  "part_003_startLocationSharing nav user w =
     (if \<not> geolocation nav
      then w\<lparr>toasts := toasts w @ [toast_error ''Geolocation is not supported by this browser'']\<rparr>
      else if \<not> isSecureContext nav
      then w\<lparr>toasts := toasts w @
             [toast_error ''Location sharing requires HTTPS. Please use a secure connection.'']\<rparr>
      else if user = None \<or> user = Some []
      then w\<lparr>toasts := toasts w @ [toast_error ''Please sign in to share location'']\<rparr>
      else (let w1 = w\<lparr>isSharing := True\<rparr>;
                (watchId, w2) = watchPosition w1;
                w3 = w2\<lparr>toasts := toasts w2 @ [toast_success ''Location sharing started'']\<rparr>
            in w3\<lparr>locationWatchId := Some watchId\<rparr>))"

text \<open>
  \<open>startLocationSharing\<close> of \<open>src/pages/DriverDashboard.tsx\<close>: the only guard is the
  one on \<open>navigator.geolocation\<close>.
\<close>

definition DriverDashboard_startLocationSharing :: "Browser \<Rightarrow> Dashboard \<Rightarrow> Dashboard" where
  "DriverDashboard_startLocationSharing nav w =
     (if \<not> geolocation nav
      then w\<lparr>toasts := toasts w @ [toast_error ''Geolocation is not supported by this browser'']\<rparr>
      else (let w1 = w\<lparr>isSharing := True\<rparr>;
                (watchId, w2) = watchPosition w1;
                w3 = w2\<lparr>toasts := toasts w2 @ [toast_success ''Location sharing started'']\<rparr>
            in w3\<lparr>locationWatchId := Some watchId\<rparr>))"

text \<open>
  \<open>updateLocation\<close>, the success callback of the watch, in \<open>unnamed/part_002\<close>:
  \<^verbatim>\<open>
  try { const { error } = await supabase.from('driver_locations').insert({...});
        if (error) throw error; }
  catch (err) { console.error(...); toast.error('Failed to update location'); setIsSharing(false); }
  \<close>
\<close>

definition part_002_updateLocation ::
  "string option \<Rightarrow> unit Coords_scheme \<Rightarrow> store_reply \<Rightarrow> Dashboard \<Rightarrow> Dashboard" where
  "part_002_updateLocation user coords reply w =
     (let w1 = w\<lparr>requests := requests w @ [Insert ''driver_locations'' user coords]\<rparr>;
          (err, tbl) = insert_driver_location reply user coords (tbl_driver_locations w1);
          w2 = w1\<lparr>tbl_driver_locations := tbl\<rparr>
      in case err of
           None \<Rightarrow> w2
         | Some e \<Rightarrow>
             w2\<lparr>console := console w2 @ [''Failed to update location:''],
                toasts := toasts w2 @ [toast_error ''Failed to update location''],
                isSharing := False\<rparr>)"

text \<open>The same callback in \<open>unnamed/part_003\<close>, on \<open>passenger_locations\<close>.\<close>

definition part_003_updateLocation ::
  "string option \<Rightarrow> unit Coords_scheme \<Rightarrow> store_reply \<Rightarrow> Dashboard \<Rightarrow> Dashboard" where
  "part_003_updateLocation user coords reply w =
     (let w1 = w\<lparr>requests := requests w @ [Insert ''passenger_locations'' user coords]\<rparr>;
          (err, tbl) = insert_passenger_location reply user coords (tbl_passenger_locations w1);
          w2 = w1\<lparr>tbl_passenger_locations := tbl\<rparr>
      in case err of
           None \<Rightarrow> w2
         | Some e \<Rightarrow>
             w2\<lparr>console := console w2 @ [''Failed to update location:''],
                toasts := toasts w2 @ [toast_error ''Failed to update location''],
                isSharing := False\<rparr>)"

text \<open>
  The callback in \<open>src/pages/DriverDashboard.tsx\<close>: an upsert on \<open>driver_id\<close> with
  \<open>profile?.user_id\<close>, whose answer is not looked at.
\<close>

definition DriverDashboard_updateLocation ::
  "string option \<Rightarrow> unit Coords_scheme \<Rightarrow> store_reply \<Rightarrow> Dashboard \<Rightarrow> Dashboard" where
  "DriverDashboard_updateLocation profile_user_id coords reply w =
     (let w1 = w\<lparr>requests := requests w @
                   [Upsert ''driver_locations'' profile_user_id coords ''driver_id'']\<rparr>;
          (err, tbl) = upsert_driver_location reply profile_user_id coords (tbl_driver_locations w1)
      in w1\<lparr>tbl_driver_locations := tbl\<rparr>)"

text \<open>
  What a running watch does: the device hands a position to the success callback, or an
  error to the error callback. A watch that is not running calls nothing.
\<close>

datatype geo_event = Position nat "unit Coords_scheme" store_reply | PositionError nat

definition geolocation_error :: "Dashboard \<Rightarrow> Dashboard" where
  "geolocation_error w =
     w\<lparr>console := console w @ [''Geolocation error:''],
        toasts := toasts w @ [toast_error ''Failed to get location''],
        isSharing := False\<rparr>"

definition part_002_watch :: "string option \<Rightarrow> Dashboard \<Rightarrow> geo_event \<Rightarrow> Dashboard" where
  "part_002_watch user w ev =
     (case ev of
        Position watchId coords reply \<Rightarrow>
          if watchId \<in> set (watchIDs w) then part_002_updateLocation user coords reply w else w
      | PositionError watchId \<Rightarrow>
          if watchId \<in> set (watchIDs w) then geolocation_error w else w)"

definition part_003_watch :: "string option \<Rightarrow> Dashboard \<Rightarrow> geo_event \<Rightarrow> Dashboard" where
  "part_003_watch user w ev =
     (case ev of
        Position watchId coords reply \<Rightarrow>
          if watchId \<in> set (watchIDs w) then part_003_updateLocation user coords reply w else w
      | PositionError watchId \<Rightarrow>
          if watchId \<in> set (watchIDs w) then geolocation_error w else w)"

definition DriverDashboard_watch :: "string option \<Rightarrow> Dashboard \<Rightarrow> geo_event \<Rightarrow> Dashboard" where
  "DriverDashboard_watch profile_user_id w ev =
     (case ev of
        Position watchId coords reply \<Rightarrow>
          if watchId \<in> set (watchIDs w)
          then DriverDashboard_updateLocation profile_user_id coords reply w else w
      | PositionError watchId \<Rightarrow>
          if watchId \<in> set (watchIDs w) then geolocation_error w else w)"


section \<open>Trip and Booking Directory\<close>

text \<open>
  The row-level policies of the migration for \<open>UPDATE\<close> on \<open>bookings\<close>: the caller
  (\<open>auth.uid()\<close>, \<open>None\<close> when nobody is signed in) may update a booking when it is
  the passenger of the booking, or the driver of the booking's trip as far as the caller
  can read that trip, and \<open>trips\<close> can only be read while \<open>scheduled\<close> or \<open>active\<close>.
\<close>

definition may_update_booking :: "string option \<Rightarrow> Trip list \<Rightarrow> Booking \<Rightarrow> bool" where
  "may_update_booking caller tbl b \<longleftrightarrow>
     caller = Some (passenger_id_booking b)
     \<or> (\<exists>t \<in> set tbl. id_trip t = trip_id_booking b
            \<and> (status_trip t = scheduled \<or> status_trip t = active)
            \<and> caller = Some (driver_id_trip t))"

text \<open>
  The store's side of \<open>.from('bookings').update({ status }).eq('id', bookingId)\<close>: every
  row with that id that the caller may update takes the status (and the trigger sets
  \<open>updated_at\<close>); a request that matches no such row changes nothing and is not an
  error.
\<close>

definition update_booking ::
  "store_reply \<Rightarrow> string option \<Rightarrow> Trip list \<Rightarrow> string \<Rightarrow> booking_status \<Rightarrow> Booking list
     \<Rightarrow> string option \<times> Booking list" where
  "update_booking reply caller tbl_t bookingId st tbl =
     (case reply of
        Refused e \<Rightarrow> (Some e, tbl)
      | Stored rid now \<Rightarrow>
          (None, map (\<lambda>b. if id_booking b = bookingId \<and> may_update_booking caller tbl_t b
                           then b\<lparr>status_booking := st, updated_at_booking := now\<rparr>
                           else b) tbl))"

text \<open>
  \<open>fetchBookings\<close>: the bookings on the trips of the driver, newest first, into the React
  state; nothing without a profile.
\<close>

definition fetchBookings :: "string option \<Rightarrow> Dashboard \<Rightarrow> Dashboard" where
  "fetchBookings profile_user_id w =
     (case profile_user_id of
        None \<Rightarrow> w
      | Some uid \<Rightarrow>
          w\<lparr>bookings :=
               rev (sort_key created_at_booking
                 (filter (\<lambda>b. \<exists>t \<in> set (tbl_trips w).
                                 id_trip t = trip_id_booking b \<and> driver_id_trip t = uid)
                    (tbl_bookings w)))\<rparr>)"

fun status_text :: "booking_status \<Rightarrow> string" where
  "status_text pending = ''pending''"
| "status_text accepted = ''accepted''"
| "status_text rejected = ''rejected''"
| "status_text cancelled = ''cancelled''"

text \<open>
  \<open>updateBookingStatus\<close> of \<open>unnamed/part_002\<close>. \<open>profile_user_id\<close> is the signed-in
  user, who is the caller at the store. \<open>fnError\<close> is the \<open>error\<close> that the
  promise of \<open>supabase.functions.invoke\<close> resolves with; the promise is not awaited, and
  its \<open>then\<close> only writes to the console.
\<close>

definition part_002_updateBookingStatus ::
  "string option \<Rightarrow> string \<Rightarrow> booking_status \<Rightarrow> store_reply \<Rightarrow> string option \<Rightarrow> Dashboard
     \<Rightarrow> Dashboard" where
  "part_002_updateBookingStatus profile_user_id bookingId st reply fnError w =
     (let w1 = w\<lparr>updatingBookingId := Some bookingId,
                  requests := requests w @ [UpdateBooking bookingId st]\<rparr>;
          (err, tbl) = update_booking reply profile_user_id (tbl_trips w1) bookingId st
                         (tbl_bookings w1);
          w2 = w1\<lparr>tbl_bookings := tbl\<rparr>;
          w3 = (case err of
                  Some e \<Rightarrow>
                    w2\<lparr>console := console w2 @ [''Booking update error:''],
                       toasts := toasts w2 @ [toast_error ''Failed to update booking'']\<rparr>
                | None \<Rightarrow>
                    (let w4 = w2\<lparr>toasts := toasts w2 @
                                   [toast_success (''Booking '' @ status_text st @ ''!'')]\<rparr>;
                         w5 = w4\<lparr>requests := requests w4 @
                                   [Invoke ''send-booking-notification'' bookingId
                                      (if st = accepted then ''booking_accepted''
                                       else ''booking_rejected'')]\<rparr>;
                         w6 = fetchBookings profile_user_id w5
                     in case fnError of
                          None \<Rightarrow> w6
                        | Some e \<Rightarrow>
                            w6\<lparr>console := console w6 @ [''Notification function error'']\<rparr>))
      in w3\<lparr>updatingBookingId := None\<rparr>)"

text \<open>\<open>updateBookingStatus\<close> of \<open>src/pages/DriverDashboard.tsx\<close>.\<close>

definition DriverDashboard_updateBookingStatus ::
  "string option \<Rightarrow> string \<Rightarrow> booking_status \<Rightarrow> store_reply \<Rightarrow> Dashboard \<Rightarrow> Dashboard" where
  "DriverDashboard_updateBookingStatus profile_user_id bookingId st reply w =
     (let w1 = w\<lparr>requests := requests w @ [UpdateBooking bookingId st]\<rparr>;
          (err, tbl) = update_booking reply profile_user_id (tbl_trips w1) bookingId st
                         (tbl_bookings w1);
          w2 = w1\<lparr>tbl_bookings := tbl\<rparr>
      in case err of
           Some e \<Rightarrow> w2\<lparr>toasts := toasts w2 @ [toast_error ''Failed to update booking'']\<rparr>
         | None \<Rightarrow>
             fetchBookings profile_user_id
               (w2\<lparr>toasts := toasts w2 @
                     [toast_success (''Booking '' @ status_text st @ ''!'')]\<rparr>))"

text \<open>
  The store's side of \<open>.from('bookings').insert([{...}])\<close> and of
  \<open>.from('trips').insert([tripData])\<close>: a stored row is the row of the request, with the
  key and the timestamps from the store. A request of another kind is not an insert.
\<close>

fun insert_booking :: "store_reply \<Rightarrow> request \<Rightarrow> Booking list \<Rightarrow> string option \<times> Booking list" where
  "insert_booking (Refused e) req tbl = (Some e, tbl)"
| "insert_booking (Stored rid now) (InsertBooking tid pid n msg st) tbl =
     (None, tbl @ [\<lparr>id_booking = rid, trip_id_booking = tid, passenger_id_booking = pid,
                     seats_requested = n, status_booking = st, message = msg,
                     created_at_booking = now, updated_at_booking = now\<rparr>])"
| "insert_booking (Stored rid now) req tbl = (Some ''not an insert into bookings'', tbl)"

fun insert_trip :: "store_reply \<Rightarrow> request \<Rightarrow> Trip list \<Rightarrow> string option \<times> Trip list" where
  "insert_trip (Refused e) req tbl = (Some e, tbl)"
| "insert_trip (Stored rid now) (InsertTrip uid a b d n p ds st) tbl =
     (None, tbl @ [\<lparr>id_trip = rid, driver_id_trip = uid, start_location = a, destination = b,
                     start_lat = None, start_lng = None, dest_lat = None, dest_lng = None,
                     departure_time = d, available_seats = n, price_per_seat = p,
                     status_trip = st, description = ds,
                     created_at_trip = now, updated_at_trip = now\<rparr>])"
| "insert_trip (Stored rid now) req tbl = (Some ''not an insert into trips'', tbl)"

text \<open>
  The page \<open>TripDetails\<close>: \<open>user\<close> is \<open>user.id\<close> (\<open>None\<close> without a user), \<open>trip\<close>
  the trip shown, \<open>seats\<close> and \<open>message_form\<close> the booking form (\<open>seats\<close> is always an
  integer: the input handler stores \<open>parseInt(value) || 1\<close>).
\<close>

record TripDetails = App +
  user :: "string option"
  trip :: "Trip option"
  seats :: int
  message_form :: string
  bookingLoading :: bool
  showBookingForm :: bool
  existingBooking :: "Booking option"

text \<open>
  \<open>handleBookingSubmit\<close>; \<open>now\<close> is the clock of the browser, for the placeholder it
  puts into \<open>existingBooking\<close>. \<open>x || y\<close> on a string takes \<open>y\<close> when \<open>x\<close> is empty.
\<close>

definition handleBookingSubmit :: "nat \<Rightarrow> store_reply \<Rightarrow> TripDetails \<Rightarrow> TripDetails" where
  "handleBookingSubmit now reply w =
     (case (user w, trip w) of
        (Some u, Some t) \<Rightarrow>
          if driver_id_trip t = u
          then w\<lparr>toasts := toasts w @ [toast_error ''You can't book your own trip'']\<rparr>
          else if seats w > available_seats t
          then w\<lparr>toasts := toasts w @ [toast_error ''Not enough seats available'']\<rparr>
          else
            (let msg = (if message_form w = [] then None else Some (message_form w));
                 req = InsertBooking (id_trip t) u (seats w) msg pending;
                 w1 = w\<lparr>bookingLoading := True, requests := requests w @ [req]\<rparr>;
                 (err, tbl) = insert_booking reply req (tbl_bookings w1);
                 w2 = w1\<lparr>tbl_bookings := tbl\<rparr>;
                 w3 = (case err of
                         Some e \<Rightarrow>
                           w2\<lparr>toasts := toasts w2 @
                                 [toast_error (if e = [] then ''Failed to send booking request''
                                               else e)]\<rparr>
                       | None \<Rightarrow>
                           w2\<lparr>toasts := toasts w2 @
                                 [toast_success ''Booking request sent successfully!''],
                              showBookingForm := False,
                              seats := 1,
                              message_form := [],
                              existingBooking :=
                                Some \<lparr>id_booking = ''temp'', trip_id_booking = id_trip t,
                                      passenger_id_booking = u, seats_requested = seats w,
                                      status_booking = pending, message = msg,
                                      created_at_booking = now, updated_at_booking = now\<rparr>\<rparr>)
             in w3\<lparr>bookingLoading := False\<rparr>)
      | _ \<Rightarrow> w\<lparr>toasts := toasts w @ [toast_error ''You must be logged in to book a trip'']\<rparr>)"

text \<open>
  The page \<open>CreateTrip\<close> (\<open>unnamed/part_000\<close>): \<open>profile\<close> is \<open>profile.user_id\<close>,
  the other fields are \<open>formData\<close>, \<open>loading\<close>, and where \<open>navigate\<close> has sent the
  browser.
\<close>

record CreateTrip = App +
  profile :: "string option"
  startLocation :: string
  destination_form :: string
  departureDate :: string
  departureTime :: string
  availableSeats :: int
  pricePerSeat :: string
  description_form :: string
  loading :: bool
  navigated :: "string option"

text \<open>
  \<open>tripData\<close>, the object that \<open>handleSubmit\<close> inserts. \<open>parseFloat\<close> is JavaScript's
  (\<open>None\<close> for \<open>NaN\<close>, which is sent as \<open>null\<close>).
\<close>

definition tripData :: "(string \<Rightarrow> real option) \<Rightarrow> string \<Rightarrow> nat \<Rightarrow> CreateTrip \<Rightarrow> request" where
  "tripData parseFloat uid departureDateTime w =
     InsertTrip uid (startLocation w) (destination_form w) departureDateTime (availableSeats w)
       (if pricePerSeat w = [] then None else parseFloat (pricePerSeat w))
       (if description_form w = [] then None else Some (description_form w))
       scheduled"

text \<open>
  \<open>handleSubmit\<close>. \<open>parseDate\<close> is \<open>new Date(string)\<close>, \<open>None\<close> for an invalid date:
  an invalid date compares false with \<open><=\<close>, and its \<open>toISOString()\<close> throws a
  \<open>RangeError\<close>, which the \<open>catch\<close> shows as a toast. \<open>now\<close> is \<open>new Date()\<close>.
\<close>

definition handleSubmit ::
  "(string \<Rightarrow> nat option) \<Rightarrow> (string \<Rightarrow> real option) \<Rightarrow> nat \<Rightarrow> store_reply \<Rightarrow> CreateTrip
     \<Rightarrow> CreateTrip" where
  "handleSubmit parseDate parseFloat now reply w =
     (case profile w of
        None \<Rightarrow> w\<lparr>toasts := toasts w @ [toast_error ''You must be logged in to create a trip'']\<rparr>
      | Some uid \<Rightarrow>
          (let w1 = w\<lparr>loading := True\<rparr>
           in case parseDate (departureDate w @ ''T'' @ departureTime w) of
                None \<Rightarrow>
                  w1\<lparr>toasts := toasts w1 @ [toast_error ''Invalid time value''],
                     loading := False\<rparr>
              | Some departureDateTime \<Rightarrow>
                  if departureDateTime \<le> now
                  then w1\<lparr>toasts := toasts w1 @
                             [toast_error ''Departure time must be in the future''],
                          loading := False\<rparr>
                  else
                    (let req = tripData parseFloat uid departureDateTime w;
                         w2 = w1\<lparr>requests := requests w1 @ [req]\<rparr>;
                         (err, tbl) = insert_trip reply req (tbl_trips w2);
                         w3 = w2\<lparr>tbl_trips := tbl\<rparr>;
                         w4 = (case err of
                                 Some e \<Rightarrow>
                                   w3\<lparr>toasts := toasts w3 @
                                         [toast_error (if e = [] then ''Failed to create trip''
                                                       else e)]\<rparr>
                               | None \<Rightarrow>
                                   w3\<lparr>toasts := toasts w3 @
                                         [toast_success ''Trip created successfully!''],
                                      navigated := Some ''/driver-dashboard''\<rparr>)
                     in w4\<lparr>loading := False\<rparr>)))"

section \<open>Subscriptions of the Live Map Presenter\<close>

text \<open>
  What the Presenter has running outside React: the channels that the realtime client
  holds (a reference and the topic) and the watches of \<open>navigator.geolocation\<close>. Neither
  collaborator is part of the repository; they are modelled as their documentation
  describes them. \<open>supabase.channel(topic)...subscribe()\<close> opens a channel;
  \<open>supabase.removeChannel(c)\<close> unsubscribes and forgets the channel \<open>c\<close>, and finds
  nothing to do for a channel it no longer holds. \<open>clearWatch\<close> of an id without a watch
  does nothing.
\<close>

record Subscriptions =
  channels :: "(nat \<times> string) list"
  watches :: "nat list"



text \<open>
  The function an effect returns for React to call at teardown, as data: nothing, the
  channels to remove (in this order), or the watch to clear.
\<close>

datatype cleanup = NoCleanup | RemoveChannels "nat list" | ClearWatch nat



text \<open>
  The geolocation effect of the map components and its cleanup
  \<open>navigator.geolocation.clearWatch(watchId)\<close>.
\<close>

definition geolocation_effect :: "bool \<Rightarrow> Subscriptions \<Rightarrow> cleanup \<times> Subscriptions" where
  "geolocation_effect has_geolocation e =
     (if \<not> has_geolocation then (NoCleanup, e)
      else (let watchId = Suc (fold max (watches e) 0)
            in (ClearWatch watchId, e\<lparr>watches := watches e @ [watchId]\<rparr>)))"





section \<open>Example values\<close>

text \<open>
  The scenario of the specification: actor D submits samples at t=1 (latitude 10) and at
  t=2 (latitude 20); actor E has one sample at t=5.
\<close>

definition sample :: "string \<Rightarrow> string \<Rightarrow> real \<Rightarrow> nat \<Rightarrow> DriverLocation" where
  "sample rid actor lat t =
     \<lparr>latitude = lat, longitude = 0, heading = None, speed = None, row_id = rid,
      trip_id = None, updated_at = t, driver_id = actor\<rparr>"

definition passenger_sample :: "string \<Rightarrow> string \<Rightarrow> real \<Rightarrow> nat \<Rightarrow> PassengerLocation" where
  "passenger_sample rid actor lat t =
     \<lparr>latitude = lat, longitude = 0, heading = None, speed = None, row_id = rid,
      trip_id = None, updated_at = t, passenger_id = actor\<rparr>"

definition presenter0 :: Presenter where
  "presenter0 =
     \<lparr>toasts = [], console = [], requests = [], tbl_driver_locations = [],
      tbl_passenger_locations = [], tbl_trips = [], tbl_bookings = [],
      driverLocations = [], passengerLocations = [], trips = [], userPosition = None\<rparr>"

definition dashboard0 :: Dashboard where
  "dashboard0 =
     \<lparr>toasts = [], console = [], requests = [], tbl_driver_locations = [],
      tbl_passenger_locations = [], tbl_trips = [], tbl_bookings = [],
      isSharing = False, locationWatchId = None, watchIDs = [], updatingBookingId = None,
      bookings = []\<rparr>"

definition here :: "unit Coords_scheme" where
  "here = \<lparr>latitude = 10, longitude = 20, heading = None, speed = None\<rparr>"

definition there :: "unit Coords_scheme" where
  "there = \<lparr>latitude = 11, longitude = 21, heading = None, speed = None\<rparr>"

text \<open>
  The trip of the specification's scenario (from A to B, three seats), the page of a
  passenger who asks for five seats on it, and a filled-in trip form.
\<close>

definition trip0 :: Trip where
  "trip0 =
     \<lparr>id_trip = ''trip'', driver_id_trip = ''driver'', start_location = ''A'',
      destination = ''B'', start_lat = None, start_lng = None, dest_lat = None,
      dest_lng = None, departure_time = 100, available_seats = 3, price_per_seat = None,
      status_trip = scheduled, description = None, created_at_trip = 1, updated_at_trip = 1\<rparr>"

definition tripdetails0 :: TripDetails where
  "tripdetails0 =
     \<lparr>toasts = [], console = [], requests = [], tbl_driver_locations = [],
      tbl_passenger_locations = [], tbl_trips = [trip0], tbl_bookings = [],
      user = Some ''passenger'', trip = Some trip0, seats = 5, message_form = [],
      bookingLoading = False, showBookingForm = True, existingBooking = None\<rparr>"

definition createtrip0 :: CreateTrip where
  "createtrip0 =
     \<lparr>toasts = [], console = [], requests = [], tbl_driver_locations = [],
      tbl_passenger_locations = [], tbl_trips = [], tbl_bookings = [],
      profile = Some ''driver'', startLocation = ''A'', destination_form = ''B'',
      departureDate = ''2030-01-01'', departureTime = ''10:00'', availableSeats = 3,
      pricePerSeat = [], description_form = [], loading = False, navigated = None\<rparr>"


definition https :: Browser where
  "https = \<lparr>geolocation = True, isSecureContext = True\<rparr>"

definition http :: Browser where
  "http = \<lparr>geolocation = True, isSecureContext = False\<rparr>"

text \<open>The dashboard of the driver of \<open>trip0\<close> with one pending booking for two seats.\<close>

definition booking0 :: Booking where
  "booking0 =
     \<lparr>id_booking = ''booking'', trip_id_booking = ''trip'', passenger_id_booking = ''passenger'',
      seats_requested = 2, status_booking = pending, message = None,
      created_at_booking = 2, updated_at_booking = 2\<rparr>"

definition dashboard1 :: Dashboard where
  "dashboard1 = dashboard0\<lparr>tbl_trips := [trip0], tbl_bookings := [booking0]\<rparr>"

text \<open>
  A driver starts sharing on the later dashboard, and the store refuses the first sample;
  the same for a passenger on \<open>PassengerDashboard\<close>.
\<close>

definition refused_driver :: Dashboard where
  "refused_driver =
     part_002_watch (Some ''driver'')
       (part_002_startLocationSharing https (Some ''driver'') dashboard0)
       (Position 1 here (Refused ''denied''))"

definition refused_passenger :: Dashboard where
  "refused_passenger =
     part_003_watch (Some ''passenger'')
       (part_003_startLocationSharing https (Some ''passenger'') dashboard0)
       (Position 1 here (Refused ''denied''))"

text \<open>
  A driver who has started sharing on the later dashboard; and a driver who, after the
  refused sample has set \<open>isSharing\<close> back, presses "Share Location" again.
\<close>

definition sharing_driver :: Dashboard where
  "sharing_driver = part_002_startLocationSharing https (Some ''driver'') dashboard0"


section \<open>Properties of the reductions\<close>

lemma first_seen_step_set:
  "set (first_seen_step key acc x) \<subseteq> insert x (set acc)"
  by (auto simp: first_seen_step_def split: option.splits)

lemma find_SomeD: "find P xs = Some y \<Longrightarrow> y \<in> set xs \<and> P y"
  by (induction xs) (auto split: if_splits)

lemma indexOf_found:
  "find P acc = Some e \<Longrightarrow>
     \<exists>j < length acc. indexOf acc e = int j \<and> acc ! j = e \<and> P e \<and> (\<forall>i < j. \<not> P (acc ! i))"
proof (induction acc)
  case Nil
  then show ?case by simp
next
  case (Cons a acc)
  show ?case
  proof (cases "P a")
    case True
    with Cons.prems have "a = e" by simp
    with True show ?thesis by auto
  next
    case False
    with Cons.prems have "find P acc = Some e" by simp
    from Cons.IH[OF this] obtain j where j: "j < length acc" "indexOf acc e = int j"
      "acc ! j = e" "P e" "\<forall>i < j. \<not> P (acc ! i)"
      by blast
    from False \<open>P e\<close> have "a \<noteq> e" by blast
    with j have "indexOf (a # acc) e = int (Suc j)" by (simp add: Let_def)
    moreover have "\<forall>i < Suc j. \<not> P ((a # acc) ! i)"
      using False j(5) by (auto simp: less_Suc_eq_0_disj)
    ultimately show ?thesis using j by (intro exI[of _ "Suc j"]) simp
  qed
qed

lemma first_seen_step_keys:
  "key ` set (first_seen_step key acc x) = insert (key x) (key ` set acc)"
proof (cases "find (\<lambda>l. key l = key x) acc")
  case None
  then show ?thesis by (simp add: first_seen_step_def)
next
  case (Some e)
  then have "e \<in> set acc" and "key e = key x"
    using find_SomeD[of "\<lambda>l. key l = key x" acc e] by simp_all
  then have "key x \<in> key ` set acc" by (metis imageI)
  with Some show ?thesis by (auto simp: first_seen_step_def)
qed

lemma first_seen_step_distinct:
  "distinct (map key acc) \<Longrightarrow> distinct (map key (first_seen_step key acc x))"
  by (auto simp: first_seen_step_def find_None_iff split: option.splits)

lemma reduce_first_seen_snoc:
  "reduce_first_seen key (xs @ [x]) = first_seen_step key (reduce_first_seen key xs) x"
  by (simp add: reduce_first_seen_def)

lemma reduce_first_seen_subset: "set (reduce_first_seen key xs) \<subseteq> set xs"
proof (induction xs rule: rev_induct)
  case Nil
  show ?case by (simp add: reduce_first_seen_def)
next
  case (snoc x xs)
  have "set (first_seen_step key (reduce_first_seen key xs) x)
          \<subseteq> insert x (set (reduce_first_seen key xs))"
    by (rule first_seen_step_set)
  with snoc show ?case by (auto simp: reduce_first_seen_snoc)
qed

lemma reduce_first_seen_keys: "key ` set (reduce_first_seen key xs) = key ` set xs"
proof (induction xs rule: rev_induct)
  case Nil
  show ?case by (simp add: reduce_first_seen_def)
next
  case (snoc x xs)
  then show ?case by (simp add: reduce_first_seen_snoc first_seen_step_keys)
qed

lemma reduce_first_seen_distinct: "distinct (map key (reduce_first_seen key xs))"
proof (induction xs rule: rev_induct)
  case Nil
  show ?case by (simp add: reduce_first_seen_def)
next
  case (snoc x xs)
  then show ?case by (simp add: reduce_first_seen_snoc first_seen_step_distinct)
qed

lemma reduce_first_seen_max:
  assumes "sorted_wrt (\<lambda>a b. stamp b \<le> stamp a) xs"
    and "r \<in> set (reduce_first_seen key xs)" and "y \<in> set xs" and "key y = key r"
  shows "(stamp :: 'r \<Rightarrow> nat) y \<le> stamp r"
  using assms
proof (induction xs arbitrary: r y rule: rev_induct)
  case Nil
  then show ?case by simp
next
  case (snoc x xs)
  from snoc.prems(1) have sorted: "sorted_wrt (\<lambda>a b. stamp b \<le> stamp a) xs"
    and below: "\<forall>z \<in> set xs. stamp x \<le> stamp z"
    by (auto simp: sorted_wrt_append)
  show ?case
  proof (cases "find (\<lambda>l. key l = key x) (reduce_first_seen key xs)")
    case None
    then have out: "reduce_first_seen key (xs @ [x]) = reduce_first_seen key xs @ [x]"
      by (simp add: reduce_first_seen_snoc first_seen_step_def)
    from None have fresh: "key x \<notin> key ` set (reduce_first_seen key xs)"
      by (auto simp: find_None_iff)
    then have fresh': "key x \<notin> key ` set xs"
      by (simp add: reduce_first_seen_keys)
    show ?thesis
    proof (cases "r = x")
      case True
      show ?thesis
      proof (cases "y = x")
        case True
        with \<open>r = x\<close> show ?thesis by simp
      next
        case False
        with snoc.prems(3) have "y \<in> set xs" by simp
        with snoc.prems(4) \<open>r = x\<close> have "key x \<in> key ` set xs" by (metis imageI)
        with fresh' show ?thesis by simp
      qed
    next
      case False
      with snoc.prems(2) out have rin: "r \<in> set (reduce_first_seen key xs)" by simp
      with fresh snoc.prems(4) have "y \<noteq> x" by auto
      with snoc.prems(3) have "y \<in> set xs" by simp
      with snoc.IH[OF sorted rin] snoc.prems(4) show ?thesis by blast
    qed
  next
    case (Some e)
    then have out: "reduce_first_seen key (xs @ [x]) = reduce_first_seen key xs"
      by (simp add: reduce_first_seen_snoc first_seen_step_def)
    with snoc.prems(2) have rin: "r \<in> set (reduce_first_seen key xs)" by simp
    then have rxs: "r \<in> set xs" by (rule subsetD[OF reduce_first_seen_subset])
    show ?thesis
    proof (cases "y = x")
      case True
      with below rxs show ?thesis by simp
    next
      case False
      with snoc.prems(3) have "y \<in> set xs" by simp
      with snoc.IH[OF sorted rin] snoc.prems(4) show ?thesis by blast
    qed
  qed
qed

lemma first_seen_latest_per_actor:
  assumes "sorted_wrt (\<lambda>a b. stamp b \<le> stamp a) xs"
  shows "latest_per_actor key stamp xs (reduce_first_seen key xs)"
  unfolding latest_per_actor_def
proof (intro conjI ballI impI)
  show "distinct (map key (reduce_first_seen key xs))"
    by (rule reduce_first_seen_distinct)
  show "set (map key (reduce_first_seen key xs)) = set (map key xs)"
    by (simp add: reduce_first_seen_keys)
next
  fix r assume "r \<in> set (reduce_first_seen key xs)"
  then show "r \<in> set xs" by (rule subsetD[OF reduce_first_seen_subset])
next
  fix r x
  assume "r \<in> set (reduce_first_seen key xs)" "x \<in> set xs" "key x = key r"
  with assms show "stamp x \<le> stamp r" by (rule reduce_first_seen_max)
qed

text \<open>
  On an input in descending order the replace variant never takes its replace branch:
  the row it found was read earlier, so its date is not smaller.
\<close>

lemma replace_eq_first_seen:
  assumes "monotone_dates toDate" and "sorted_wrt (\<lambda>a b. stamp b \<le> stamp a) xs"
  shows "reduce_replace key toDate stamp xs = reduce_first_seen key xs"
  using assms(2)
proof (induction xs rule: rev_induct)
  case Nil
  show ?case by (simp add: reduce_replace_def reduce_first_seen_def)
next
  case (snoc x xs)
  from snoc.prems have sorted: "sorted_wrt (\<lambda>a b. stamp b \<le> stamp a) xs"
    and below: "\<forall>z \<in> set xs. stamp x \<le> stamp z"
    by (auto simp: sorted_wrt_append)
  have IH: "reduce_replace key toDate stamp xs = reduce_first_seen key xs"
    by (rule snoc.IH[OF sorted])
  have "replace_step key toDate stamp (reduce_first_seen key xs) x
          = first_seen_step key (reduce_first_seen key xs) x"
  proof (cases "find (\<lambda>l. key l = key x) (reduce_first_seen key xs)")
    case None
    then show ?thesis by (simp add: replace_step_def first_seen_step_def)
  next
    case (Some e)
    then have "e \<in> set (reduce_first_seen key xs)"
      by (simp add: find_SomeD)
    then have "e \<in> set xs" by (rule subsetD[OF reduce_first_seen_subset])
    with below have "stamp x \<le> stamp e" by simp
    with assms(1) have "\<not> later (toDate (stamp x)) (toDate (stamp e))"
      by (fastforce simp: monotone_dates_def later_def split: option.splits)
    with Some show ?thesis by (simp add: replace_step_def first_seen_step_def)
  qed
  with IH show ?case
    by (simp add: reduce_replace_def reduce_first_seen_def)
qed

lemma latest_per_actor_rows:
  "set xs = set ys \<Longrightarrow> latest_per_actor key stamp xs out \<Longrightarrow> latest_per_actor key stamp ys out"
  by (simp add: latest_per_actor_def)

lemma order_desc_ordered: "ordered_desc rows (order_desc rows)"
proof -
  have "sorted (map updated_at (sort_key updated_at rows))"
    by (rule sorted_sort_key)
  then have "sorted_wrt (\<lambda>a b. updated_at a \<le> updated_at b) (sort_key updated_at rows)"
    by (simp only: sorted_map)
  then have "sorted_wrt (\<lambda>a b. updated_at b \<le> updated_at a) (rev (sort_key updated_at rows))"
    by (simp only: sorted_wrt_rev)
  then show ?thesis
    by (simp add: ordered_desc_def order_desc_def)
qed

section \<open>The latest-per-actor query\<close>

lemma monotone_div_1000: "monotone_dates (\<lambda>t. Some (t div 1000))"
  by (auto simp: monotone_dates_def div_le_mono)

lemma replace_latest_per_actor:
  assumes "monotone_dates toDate" and "sorted_wrt (\<lambda>a b. stamp b \<le> stamp a) xs"
  shows "latest_per_actor key stamp xs (reduce_replace key toDate stamp xs)"
  using assms by (simp add: replace_eq_first_seen first_seen_latest_per_actor)

text \<open>
  Claim C1. For every list \<open>rows\<close> of driver rows and every list \<open>prows\<close> of passenger
  rows, and every answer of the store that holds these rows in descending order of
  \<open>updated_at\<close>, each of the three fetches leaves in the presenter exactly one row per
  distinct actor id of the input, and that row is a row of the input whose \<open>updated_at\<close> no
  row of the same actor exceeds (of two rows that tie on the maximum, either may be the
  one). \<open>new Date\<close> is taken to be monotone in the stored timestamp where it reads one.
\<close>

theorem latest_per_actor_fetch:
  assumes "monotone_dates toDate"
    and "ordered_desc rows answer"
    and "ordered_desc prows panswer"
  shows "latest_per_actor driver_id updated_at rows
           (driverLocations (EnhancedMapComponent_fetchDriverLocations (Resolved (Some answer) None) s))
       \<and> (\<exists>s'. MapComponent_fetchDriverLocations toDate (Resolved (Some answer) err) s = Inr s'
              \<and> latest_per_actor driver_id updated_at rows (driverLocations s'))
       \<and> latest_per_actor passenger_id updated_at prows
           (passengerLocations (fetchPassengerLocations toDate (Resolved (Some panswer) err) s))"
proof -
  from assms(2) have perm: "mset answer = mset rows"
    and sorted: "sorted_wrt (\<lambda>a b. updated_at b \<le> updated_at a) answer"
    by (simp_all add: ordered_desc_def)
  from perm have set_eq: "set answer = set rows"
    by (rule mset_eq_setD)
  from assms(3) have pperm: "mset panswer = mset prows"
    and psorted: "sorted_wrt (\<lambda>a b. updated_at b \<le> updated_at a) panswer"
    by (simp_all add: ordered_desc_def)
  from pperm have pset_eq: "set panswer = set prows"
    by (rule mset_eq_setD)
  have first: "latest_per_actor driver_id updated_at rows (reduce_first_seen driver_id answer)"
    by (rule latest_per_actor_rows[OF set_eq first_seen_latest_per_actor[OF sorted]])
  have second: "latest_per_actor driver_id updated_at rows
                  (reduce_replace driver_id toDate updated_at answer)"
    by (rule latest_per_actor_rows[OF set_eq replace_latest_per_actor[OF assms(1) sorted]])
  have third: "latest_per_actor passenger_id updated_at prows
                 (reduce_replace passenger_id toDate updated_at panswer)"
    by (rule latest_per_actor_rows[OF pset_eq replace_latest_per_actor[OF assms(1) psorted]])
  from first have "latest_per_actor driver_id updated_at rows
           (driverLocations (EnhancedMapComponent_fetchDriverLocations (Resolved (Some answer) None) s))"
    by (simp add: EnhancedMapComponent_fetchDriverLocations_def
        EnhancedMapComponent_latestLocations_def)
  moreover from second have "\<exists>s'. MapComponent_fetchDriverLocations toDate (Resolved (Some answer) err) s = Inr s'
              \<and> latest_per_actor driver_id updated_at rows (driverLocations s')"
    by (simp add: MapComponent_fetchDriverLocations_def MapComponent_latestLocations_def)
  moreover from third have "latest_per_actor passenger_id updated_at prows
           (passengerLocations (fetchPassengerLocations toDate (Resolved (Some panswer) err) s))"
    by (simp add: fetchPassengerLocations_def fetchPassengerLocations_latestLocations_def)
  ultimately show ?thesis by blast
qed

theorem latest_per_actor_fetch_witness:
  "monotone_dates (\<lambda>t. Some (t div 1000))
   \<and> ordered_desc [sample ''1'' ''D'' 10 1, sample ''2'' ''D'' 20 2, sample ''3'' ''E'' 0 5]
        [sample ''3'' ''E'' 0 5, sample ''2'' ''D'' 20 2, sample ''1'' ''D'' 10 1]
   \<and> ordered_desc [passenger_sample ''1'' ''P'' 10 7, passenger_sample ''2'' ''P'' 20 7]
        [passenger_sample ''2'' ''P'' 20 7, passenger_sample ''1'' ''P'' 10 7]
   \<and> driverLocations (EnhancedMapComponent_fetchDriverLocations
        (Resolved (Some [sample ''3'' ''E'' 0 5, sample ''2'' ''D'' 20 2, sample ''1'' ''D'' 10 1]) None)
        presenter0)
       = [sample ''3'' ''E'' 0 5, sample ''2'' ''D'' 20 2]
   \<and> latest_per_actor driver_id updated_at
        [sample ''1'' ''D'' 10 1, sample ''2'' ''D'' 20 2, sample ''3'' ''E'' 0 5]
        [sample ''3'' ''E'' 0 5, sample ''2'' ''D'' 20 2]
   \<and> latest_per_actor passenger_id updated_at
        [passenger_sample ''1'' ''P'' 10 7, passenger_sample ''2'' ''P'' 20 7]
        (passengerLocations (fetchPassengerLocations (\<lambda>t. Some (t div 1000))
           (Resolved (Some [passenger_sample ''2'' ''P'' 20 7, passenger_sample ''1'' ''P'' 10 7]) None)
           presenter0))"
proof -
  have h1: "monotone_dates (\<lambda>t. Some (t div 1000))" by (rule monotone_div_1000)
  have h2: "ordered_desc [sample ''1'' ''D'' 10 1, sample ''2'' ''D'' 20 2, sample ''3'' ''E'' 0 5]
        [sample ''3'' ''E'' 0 5, sample ''2'' ''D'' 20 2, sample ''1'' ''D'' 10 1]"
    by (simp add: ordered_desc_def sample_def)
  have h3: "ordered_desc [passenger_sample ''1'' ''P'' 10 7, passenger_sample ''2'' ''P'' 20 7]
        [passenger_sample ''2'' ''P'' 20 7, passenger_sample ''1'' ''P'' 10 7]"
    by (simp add: ordered_desc_def passenger_sample_def)
  have out: "driverLocations (EnhancedMapComponent_fetchDriverLocations
        (Resolved (Some [sample ''3'' ''E'' 0 5, sample ''2'' ''D'' 20 2, sample ''1'' ''D'' 10 1]) None)
        presenter0)
       = [sample ''3'' ''E'' 0 5, sample ''2'' ''D'' 20 2]"
    by (simp add: EnhancedMapComponent_fetchDriverLocations_def
        EnhancedMapComponent_latestLocations_def reduce_first_seen_def first_seen_step_def
        sample_def)
  note claim = latest_per_actor_fetch[OF h1 h2 h3, of presenter0 None]
  from claim have "latest_per_actor driver_id updated_at
        [sample ''1'' ''D'' 10 1, sample ''2'' ''D'' 20 2, sample ''3'' ''E'' 0 5]
        (driverLocations (EnhancedMapComponent_fetchDriverLocations
        (Resolved (Some [sample ''3'' ''E'' 0 5, sample ''2'' ''D'' 20 2, sample ''1'' ''D'' 10 1]) None)
        presenter0))"
    by (rule conjunct1)
  then have drivers: "latest_per_actor driver_id updated_at
        [sample ''1'' ''D'' 10 1, sample ''2'' ''D'' 20 2, sample ''3'' ''E'' 0 5]
        [sample ''3'' ''E'' 0 5, sample ''2'' ''D'' 20 2]"
    by (simp only: out)
  from claim have passengers: "latest_per_actor passenger_id updated_at
        [passenger_sample ''1'' ''P'' 10 7, passenger_sample ''2'' ''P'' 20 7]
        (passengerLocations (fetchPassengerLocations (\<lambda>t. Some (t div 1000))
           (Resolved (Some [passenger_sample ''2'' ''P'' 20 7, passenger_sample ''1'' ''P'' 10 7]) None)
           presenter0))"
    by (rule conjunct2[THEN conjunct2])
  show ?thesis
    by (intro conjI) (rule h1 h2 h3 out drivers passengers)+
qed

text \<open>
  Claim C2. On every input list in descending order of timestamp, the first-seen reduction
  of \<open>EnhancedMapComponent.fetchDriverLocations\<close> and the replace-on-strictly-greater
  reduction of \<open>MapComponent.fetchDriverLocations\<close> produce the same list of rows, hence
  the same mapping from actor id to location row. \<open>new Date\<close> is taken to be monotone in
  the stored timestamp where it reads one.
\<close>

theorem variants_agree_on_descending:
  assumes "monotone_dates toDate"
    and "sorted_wrt (\<lambda>a b. updated_at b \<le> updated_at a) rows"
  shows "MapComponent_latestLocations toDate rows = EnhancedMapComponent_latestLocations rows
       \<and> actor_mapping (MapComponent_latestLocations toDate rows)
           = actor_mapping (EnhancedMapComponent_latestLocations rows)"
  using replace_eq_first_seen[OF assms, of driver_id]
  by (simp add: MapComponent_latestLocations_def EnhancedMapComponent_latestLocations_def)

theorem variants_agree_on_descending_witness:
  "monotone_dates (\<lambda>t. Some (t div 1000))
   \<and> sorted_wrt (\<lambda>a b. updated_at b \<le> updated_at a)
        [sample ''3'' ''E'' 0 5000, sample ''2'' ''D'' 20 2500, sample ''1'' ''D'' 10 2000]
   \<and> MapComponent_latestLocations (\<lambda>t. Some (t div 1000))
        [sample ''3'' ''E'' 0 5000, sample ''2'' ''D'' 20 2500, sample ''1'' ''D'' 10 2000]
       = [sample ''3'' ''E'' 0 5000, sample ''2'' ''D'' 20 2500]
   \<and> actor_mapping (MapComponent_latestLocations (\<lambda>t. Some (t div 1000))
        [sample ''3'' ''E'' 0 5000, sample ''2'' ''D'' 20 2500, sample ''1'' ''D'' 10 2000]) ''D''
       = Some (sample ''2'' ''D'' 20 2500)"
proof -
  have h1: "monotone_dates (\<lambda>t. Some (t div 1000))" by (rule monotone_div_1000)
  have h2: "sorted_wrt (\<lambda>a b. updated_at b \<le> updated_at a)
        [sample ''3'' ''E'' 0 5000, sample ''2'' ''D'' 20 2500, sample ''1'' ''D'' 10 2000]"
    by (simp add: sample_def)
  have out: "EnhancedMapComponent_latestLocations
        [sample ''3'' ''E'' 0 5000, sample ''2'' ''D'' 20 2500, sample ''1'' ''D'' 10 2000]
       = [sample ''3'' ''E'' 0 5000, sample ''2'' ''D'' 20 2500]"
    by (simp add: EnhancedMapComponent_latestLocations_def reduce_first_seen_def
        first_seen_step_def sample_def)
  have m: "actor_mapping [sample ''3'' ''E'' 0 5000, sample ''2'' ''D'' 20 2500] ''D''
       = Some (sample ''2'' ''D'' 20 2500)"
    by (simp add: actor_mapping_def sample_def)
  note claim = variants_agree_on_descending[OF h1 h2]
  from claim have same: "MapComponent_latestLocations (\<lambda>t. Some (t div 1000))
        [sample ''3'' ''E'' 0 5000, sample ''2'' ''D'' 20 2500, sample ''1'' ''D'' 10 2000]
       = [sample ''3'' ''E'' 0 5000, sample ''2'' ''D'' 20 2500]"
    by (simp only: out)
  have mapping: "actor_mapping (MapComponent_latestLocations (\<lambda>t. Some (t div 1000))
        [sample ''3'' ''E'' 0 5000, sample ''2'' ''D'' 20 2500, sample ''1'' ''D'' 10 2000]) ''D''
       = Some (sample ''2'' ''D'' 20 2500)"
    by (simp only: same m)
  show ?thesis
    by (intro conjI) (rule h1 h2 same mapping)+
qed

section \<open>Viewport recentering\<close>

text \<open>
  Claim C9. Every viewport adjustment (centering on the user's position in the three map
  components, scheduling and running the fit to a selected trip's endpoints) returns
  normally whatever the map widget does, so no exception of the widget leaves the
  presenter, and the presenter's marker state after it is the one before. In particular a
  widget whose every call throws leaves the presenter as it was, apart from the console
  line that the later component writes.
\<close>

theorem recentering_best_effort:
  "(\<exists>m' s'. center_on_user setView mapRef s = Inr (m', s') \<and> markers s' = markers s)
   \<and> (\<exists>m' ts s'. viewport_effect setView mapRef selectedTrip s = Inr (m', ts, s')
          \<and> markers s' = markers s)
   \<and> (\<exists>m' s'. fitBounds_timeout fitBounds mapRef b s = Inr (m', s') \<and> markers s' = markers s)
   \<and> center_on_user (\<lambda>m pos zoom. Inl e) mapRef s = Inr (mapRef, s)
   \<and> (\<exists>ts s'. viewport_effect (\<lambda>m pos zoom. Inl e) mapRef selectedTrip s = Inr (mapRef, ts, s')
          \<and> s'\<lparr>console := console s\<rparr> = s)
   \<and> fitBounds_timeout (\<lambda>m b padding maxZoom. Inl e) mapRef b s
        = Inr (mapRef, s\<lparr>console := console s @ [''Map bounds error:'']\<rparr>)"
proof (intro conjI)
  show "\<exists>m' s'. center_on_user setView mapRef s = Inr (m', s') \<and> markers s' = markers s"
    by (auto simp: center_on_user_def try_catch_def split: option.splits sum.splits)
  show "\<exists>m' ts s'. viewport_effect setView mapRef selectedTrip s = Inr (m', ts, s')
          \<and> markers s' = markers s"
    by (auto simp: viewport_effect_def try_catch_def markers_def
        split: option.splits sum.splits)
  show "\<exists>m' s'. fitBounds_timeout fitBounds mapRef b s = Inr (m', s') \<and> markers s' = markers s"
    by (auto simp: fitBounds_timeout_def try_catch_def markers_def
        split: option.splits sum.splits)
  show "center_on_user (\<lambda>m pos zoom. Inl e) mapRef s = Inr (mapRef, s)"
    by (auto simp: center_on_user_def try_catch_def split: option.splits)
  show "\<exists>ts s'. viewport_effect (\<lambda>m pos zoom. Inl e) mapRef selectedTrip s = Inr (mapRef, ts, s')
          \<and> s'\<lparr>console := console s\<rparr> = s"
    by (auto simp: viewport_effect_def try_catch_def split: option.splits)
  show "fitBounds_timeout (\<lambda>m b padding maxZoom. Inl e) mapRef b s
        = Inr (mapRef, s\<lparr>console := console s @ [''Map bounds error:'']\<rparr>)"
    by (auto simp: fitBounds_timeout_def try_catch_def split: option.splits)
qed

section \<open>Trip and Booking Directory\<close>

text \<open>
  Claim C5. For every booking request on a trip \<open>t\<close> with more seats requested than
  \<open>available_seats t\<close>, \<open>handleBookingSubmit\<close> rejects: it sends no request to the store,
  the \<open>bookings\<close> table is as before, and all it does is show one error toast, whatever
  the store would have answered. For a signed-in user who is not the driver the toast is
  "Not enough seats available".
\<close>

theorem overbooking_rejected:
  assumes "trip w = Some t" and "seats w > available_seats t"
  shows "requests (handleBookingSubmit now reply w) = requests w
       \<and> tbl_bookings (handleBookingSubmit now reply w) = tbl_bookings w
       \<and> (\<exists>msg. handleBookingSubmit now reply w = w\<lparr>toasts := toasts w @ [toast_error msg]\<rparr>)
       \<and> (\<forall>u. user w = Some u \<and> u \<noteq> driver_id_trip t \<longrightarrow>
             handleBookingSubmit now reply w
               = w\<lparr>toasts := toasts w @ [toast_error ''Not enough seats available'']\<rparr>)"
  using assms
  by (cases "user w") (auto simp: handleBookingSubmit_def)

theorem overbooking_rejected_witness:
  "trip tripdetails0 = Some trip0 \<and> seats tripdetails0 > available_seats trip0
   \<and> requests (handleBookingSubmit 7 (Stored ''b1'' 8) tripdetails0) = []
   \<and> tbl_bookings (handleBookingSubmit 7 (Stored ''b1'' 8) tripdetails0) = []
   \<and> handleBookingSubmit 7 (Stored ''b1'' 8) tripdetails0
       = tripdetails0\<lparr>toasts := [toast_error ''Not enough seats available'']\<rparr>"
proof -
  have h1: "trip tripdetails0 = Some trip0" by (simp add: tripdetails0_def)
  have h2: "seats tripdetails0 > available_seats trip0"
    by (simp add: tripdetails0_def trip0_def)
  have u: "user tripdetails0 = Some ''passenger'' \<and> ''passenger'' \<noteq> driver_id_trip trip0"
    by (simp add: tripdetails0_def trip0_def)
  have r: "requests tripdetails0 = []" and b: "tbl_bookings tripdetails0 = []"
    and t: "toasts tripdetails0 = []"
    by (simp_all add: tripdetails0_def)
  note claim = overbooking_rejected[OF h1 h2, of 7 "Stored ''b1'' 8"]
  from claim have c1: "requests (handleBookingSubmit 7 (Stored ''b1'' 8) tripdetails0) = []"
    by (simp only: r)
  from claim have c2: "tbl_bookings (handleBookingSubmit 7 (Stored ''b1'' 8) tripdetails0) = []"
    by (simp only: b)
  from claim u have "handleBookingSubmit 7 (Stored ''b1'' 8) tripdetails0
       = tripdetails0\<lparr>toasts := toasts tripdetails0 @ [toast_error ''Not enough seats available'']\<rparr>"
    by blast
  then have c3: "handleBookingSubmit 7 (Stored ''b1'' 8) tripdetails0
       = tripdetails0\<lparr>toasts := [toast_error ''Not enough seats available'']\<rparr>"
    by (simp only: t append_Nil)
  show ?thesis
    by (intro conjI) (rule h1 h2 c1 c2 c3)+
qed

text \<open>
  Claim C10. Every trip row that \<open>handleSubmit\<close> adds to the store has the status
  \<open>scheduled\<close>. For every form input that passes the validation (a profile, a valid
  departure time later than now), the one request sent is an insert with status
  \<open>scheduled\<close>; when the store accepts it, the \<open>trips\<close> table grows by exactly one row,
  whose status is \<open>scheduled\<close>, and when the store refuses it the table is as before.
\<close>

theorem created_trip_is_scheduled:
  "(\<forall>row \<in> set (tbl_trips (handleSubmit parseDate parseFloat now reply w)).
       row \<in> set (tbl_trips w) \<or> status_trip row = scheduled)
   \<and> (profile w = Some uid \<and> parseDate (departureDate w @ ''T'' @ departureTime w) = Some d
        \<and> now < d \<longrightarrow>
         requests (handleSubmit parseDate parseFloat now reply w)
           = requests w @ [tripData parseFloat uid d w]
         \<and> (\<exists>a b n p ds. tripData parseFloat uid d w = InsertTrip uid a b d n p ds scheduled)
         \<and> (\<forall>rid t. reply = Stored rid t \<longrightarrow>
               (\<exists>row. tbl_trips (handleSubmit parseDate parseFloat now reply w) = tbl_trips w @ [row]
                      \<and> id_trip row = rid \<and> status_trip row = scheduled))
         \<and> (\<forall>e. reply = Refused e \<longrightarrow>
               tbl_trips (handleSubmit parseDate parseFloat now reply w) = tbl_trips w))"
proof (intro conjI impI)
  show "\<forall>row \<in> set (tbl_trips (handleSubmit parseDate parseFloat now reply w)).
       row \<in> set (tbl_trips w) \<or> status_trip row = scheduled"
    by (cases reply)
      (auto simp: handleSubmit_def tripData_def Let_def split: option.splits)
next
  assume valid: "profile w = Some uid \<and> parseDate (departureDate w @ ''T'' @ departureTime w) = Some d
        \<and> now < d"
  show "requests (handleSubmit parseDate parseFloat now reply w)
           = requests w @ [tripData parseFloat uid d w]"
    using valid by (cases reply) (auto simp: handleSubmit_def tripData_def Let_def)
  show "\<exists>a b n p ds. tripData parseFloat uid d w = InsertTrip uid a b d n p ds scheduled"
    by (simp add: tripData_def)
  show "\<forall>rid t. reply = Stored rid t \<longrightarrow>
               (\<exists>row. tbl_trips (handleSubmit parseDate parseFloat now reply w) = tbl_trips w @ [row]
                      \<and> id_trip row = rid \<and> status_trip row = scheduled)"
    using valid by (auto simp: handleSubmit_def tripData_def Let_def)
  show "\<forall>e. reply = Refused e \<longrightarrow>
               tbl_trips (handleSubmit parseDate parseFloat now reply w) = tbl_trips w"
    using valid by (auto simp: handleSubmit_def tripData_def Let_def)
qed

theorem created_trip_is_scheduled_witness:
  "profile createtrip0 = Some ''driver''
   \<and> (\<lambda>s. Some 100) (departureDate createtrip0 @ ''T'' @ departureTime createtrip0) = Some (100::nat)
   \<and> (50::nat) < 100
   \<and> (\<exists>row. tbl_trips (handleSubmit (\<lambda>s. Some 100) (\<lambda>s. None) 50 (Stored ''t1'' 60) createtrip0)
               = [row] \<and> id_trip row = ''t1'' \<and> status_trip row = scheduled)"
proof -
  have h: "profile createtrip0 = Some ''driver''
     \<and> (\<lambda>s. Some 100) (departureDate createtrip0 @ ''T'' @ departureTime createtrip0) = Some (100::nat)
     \<and> (50::nat) < 100"
    by (simp add: createtrip0_def)
  have t: "tbl_trips createtrip0 = []" by (simp add: createtrip0_def)
  note claim = created_trip_is_scheduled[of "\<lambda>s. Some 100" "\<lambda>s. None" 50 "Stored ''t1'' 60"
      createtrip0 "''driver''" 100]
  from claim h have "\<exists>row. tbl_trips (handleSubmit (\<lambda>s. Some 100) (\<lambda>s. None) 50 (Stored ''t1'' 60) createtrip0)
               = tbl_trips createtrip0 @ [row] \<and> id_trip row = ''t1'' \<and> status_trip row = scheduled"
    by blast
  then have "\<exists>row. tbl_trips (handleSubmit (\<lambda>s. Some 100) (\<lambda>s. None) 50 (Stored ''t1'' 60) createtrip0)
               = [row] \<and> id_trip row = ''t1'' \<and> status_trip row = scheduled"
    by (simp only: t append_Nil)
  with h show ?thesis by blast
qed

section \<open>Teardown\<close>














lemma geolocation_effect_channels:
  "channels (snd (geolocation_effect has_geolocation e)) = channels e"
  by (simp add: geolocation_effect_def Let_def)








section \<open>Location Ingest\<close>

lemma updateLocation_keeps_watch:
  "watchIDs (part_002_updateLocation uid c reply w) = watchIDs w"
  "locationWatchId (part_002_updateLocation uid c reply w) = locationWatchId w"
  "watchIDs (part_003_updateLocation uid c reply w) = watchIDs w"
  "locationWatchId (part_003_updateLocation uid c reply w) = locationWatchId w"
  by (auto simp: part_002_updateLocation_def part_003_updateLocation_def Let_def
      split: prod.splits option.splits)

text \<open>
  A refused insert surfaces the message and is not sent again, but the callback never
  clears the watch: whatever the store answers, the watch that delivered the sample is
  still running afterwards, so the next sample is submitted as well.
\<close>

lemma watch_survives_refusal:
  assumes "i \<in> set (watchIDs w)"
  shows "i \<in> set (watchIDs (part_002_watch uid w (Position i c (Refused e))))"
    and "requests (part_002_watch uid (part_002_watch uid w (Position i c (Refused e)))
                    (Position i c' reply))
           = requests w @ [Insert ''driver_locations'' uid c, Insert ''driver_locations'' uid c']"
  using assms
  by (auto simp: part_002_watch_def part_002_updateLocation_def insert_driver_location_def
      Let_def split: store_reply.splits option.splits)

text \<open>
  Claim C3, at the failing input. The driver shares on the later dashboard, the store
  refuses the first sample, the device delivers a second one. After the refusal the toast
  is shown and \<open>isSharing\<close> is false, yet the watch is still running and its handle still
  set; the second sample is sent to the store and stored. \<open>PassengerDashboard\<close> does the
  same on its table.
\<close>

theorem refused_insert_leaves_watch_running:
  "toasts refused_driver
     = [toast_success ''Location sharing started'', toast_error ''Failed to update location'']
   \<and> isSharing refused_driver = False
   \<and> requests refused_driver = [Insert ''driver_locations'' (Some ''driver'') here]
   \<and> tbl_driver_locations refused_driver = []
   \<and> watchIDs refused_driver = [1]
   \<and> locationWatchId refused_driver = Some 1
   \<and> requests (part_002_watch (Some ''driver'') refused_driver (Position 1 there (Stored ''r2'' 9)))
       = [Insert ''driver_locations'' (Some ''driver'') here,
          Insert ''driver_locations'' (Some ''driver'') there]
   \<and> map row_id (tbl_driver_locations
         (part_002_watch (Some ''driver'') refused_driver (Position 1 there (Stored ''r2'' 9))))
       = [''r2'']
   \<and> watchIDs refused_passenger = [1]
   \<and> requests (part_003_watch (Some ''passenger'') refused_passenger
         (Position 1 there (Stored ''r2'' 9)))
       = [Insert ''passenger_locations'' (Some ''passenger'') here,
          Insert ''passenger_locations'' (Some ''passenger'') there]"
proof -
  have d: "refused_driver =
      dashboard0\<lparr>toasts := [toast_success ''Location sharing started'',
                            toast_error ''Failed to update location''],
                 console := [''Failed to update location:''],
                 requests := [Insert ''driver_locations'' (Some ''driver'') here],
                 isSharing := False, locationWatchId := Some 1, watchIDs := [1]\<rparr>"
    by (simp add: refused_driver_def part_002_watch_def part_002_updateLocation_def
        part_002_startLocationSharing_def watchPosition_def insert_driver_location_def
        https_def dashboard0_def Let_def)
  have p: "refused_passenger =
      dashboard0\<lparr>toasts := [toast_success ''Location sharing started'',
                            toast_error ''Failed to update location''],
                 console := [''Failed to update location:''],
                 requests := [Insert ''passenger_locations'' (Some ''passenger'') here],
                 isSharing := False, locationWatchId := Some 1, watchIDs := [1]\<rparr>"
    by (simp add: refused_passenger_def part_003_watch_def part_003_updateLocation_def
        part_003_startLocationSharing_def watchPosition_def insert_passenger_location_def
        https_def dashboard0_def Let_def)
  show ?thesis
    unfolding d p
    by (simp add: part_002_watch_def part_002_updateLocation_def insert_driver_location_def
        part_003_watch_def part_003_updateLocation_def insert_passenger_location_def
        dashboard0_def Let_def)
qed

text \<open>
  On the later dashboards an insecure context stops \<open>startLocationSharing\<close> at its guard:
  all it does is show one error toast (the one about HTTPS when geolocation is there), so
  no watch starts and no request is sent.
\<close>

lemma guarded_start_insecure:
  assumes "\<not> isSecureContext nav"
  shows "\<exists>msg. part_002_startLocationSharing nav uid w = w\<lparr>toasts := toasts w @ [toast_error msg]\<rparr>"
    and "\<exists>msg. part_003_startLocationSharing nav uid w = w\<lparr>toasts := toasts w @ [toast_error msg]\<rparr>"
  using assms
  by (auto simp: part_002_startLocationSharing_def part_003_startLocationSharing_def)

text \<open>
  Claim C4, at the failing input. \<open>startLocationSharing\<close> of
  \<open>src/pages/DriverDashboard.tsx\<close> in an insecure context with geolocation present: it
  reports no error, sets \<open>isSharing\<close>, starts a watch and shows "Location sharing started";
  a sample the device then delivers is sent to the store, and stored when the store
  accepts it. The later dashboard at the same input only shows the HTTPS error.
\<close>

theorem DriverDashboard_starts_in_insecure_context:
  "isSecureContext http = False
   \<and> DriverDashboard_startLocationSharing http dashboard0
       = dashboard0\<lparr>toasts := [toast_success ''Location sharing started''],
                    isSharing := True, locationWatchId := Some 1, watchIDs := [1]\<rparr>
   \<and> requests (DriverDashboard_watch (Some ''driver'')
         (DriverDashboard_startLocationSharing http dashboard0) (Position 1 here (Stored ''r1'' 9)))
       = [Upsert ''driver_locations'' (Some ''driver'') here ''driver_id'']
   \<and> map row_id (tbl_driver_locations (DriverDashboard_watch (Some ''driver'')
         (DriverDashboard_startLocationSharing http dashboard0) (Position 1 here (Stored ''r1'' 9))))
       = [''r1'']
   \<and> part_002_startLocationSharing http (Some ''driver'') dashboard0
       = dashboard0\<lparr>toasts :=
           [toast_error ''Location sharing requires HTTPS. Please use a secure connection.'']\<rparr>"
proof -
  have s: "DriverDashboard_startLocationSharing http dashboard0
       = dashboard0\<lparr>toasts := [toast_success ''Location sharing started''],
                    isSharing := True, locationWatchId := Some 1, watchIDs := [1]\<rparr>"
    by (simp add: DriverDashboard_startLocationSharing_def watchPosition_def http_def
        dashboard0_def Let_def)
  show ?thesis
    unfolding s
    by (simp add: DriverDashboard_watch_def DriverDashboard_updateLocation_def
        upsert_driver_location_def insert_driver_location_def
        part_002_startLocationSharing_def http_def dashboard0_def Let_def)
qed

section \<open>Accepting a booking\<close>

text \<open>
  On the later dashboard, accepting a booking that the store lets the caller update sets
  the status of that booking to \<open>accepted\<close>, then sends the notification, and the answer of the
  notification function shows only in the console: the store and the React state do not
  depend on it.
\<close>

lemma part_002_accept:
  assumes "b \<in> set (tbl_bookings w)" and "id_booking b = bookingId"
    and "\<forall>b' \<in> set (tbl_bookings w). id_booking b' = bookingId \<longrightarrow>
           may_update_booking pid (tbl_trips w) b'"
  shows "requests (part_002_updateBookingStatus pid bookingId accepted (Stored rid now) fnError w)
           = requests w @ [UpdateBooking bookingId accepted,
                           Invoke ''send-booking-notification'' bookingId ''booking_accepted'']"
    and "b\<lparr>status_booking := accepted, updated_at_booking := now\<rparr>
           \<in> set (tbl_bookings (part_002_updateBookingStatus pid bookingId accepted (Stored rid now) fnError w))"
    and "\<forall>b' \<in> set (tbl_bookings (part_002_updateBookingStatus pid bookingId accepted (Stored rid now) fnError w)).
           id_booking b' = bookingId \<longrightarrow> status_booking b' = accepted"
  using assms
  by (cases pid; cases fnError;
      auto simp: part_002_updateBookingStatus_def update_booking_def fetchBookings_def Let_def)+

lemma part_002_dispatch_outcome:
  "tbl_bookings (part_002_updateBookingStatus pid bookingId st reply fnError w)
     = tbl_bookings (part_002_updateBookingStatus pid bookingId st reply fnError' w)"
  "bookings (part_002_updateBookingStatus pid bookingId st reply fnError w)
     = bookings (part_002_updateBookingStatus pid bookingId st reply fnError' w)"
  by (cases reply; cases pid; cases fnError; cases fnError';
      simp add: part_002_updateBookingStatus_def update_booking_def fetchBookings_def Let_def)+

text \<open>
  Claim C6, at the failing input. The driver of \<open>trip0\<close> accepts the pending booking and
  the store updates it. On \<open>src/pages/DriverDashboard.tsx\<close> the status becomes
  \<open>accepted\<close> and the only request is the update: no notification is dispatched. The
  later dashboard at the same input sends the update and then the notification.
\<close>

theorem DriverDashboard_accept_dispatches_nothing:
  "map status_booking (tbl_bookings dashboard1) = [pending]
   \<and> map status_booking (tbl_bookings
         (DriverDashboard_updateBookingStatus (Some ''driver'') ''booking'' accepted (Stored [] 9)
            dashboard1))
       = [accepted]
   \<and> requests (DriverDashboard_updateBookingStatus (Some ''driver'') ''booking'' accepted
         (Stored [] 9) dashboard1)
       = [UpdateBooking ''booking'' accepted]
   \<and> requests (part_002_updateBookingStatus (Some ''driver'') ''booking'' accepted
         (Stored [] 9) None dashboard1)
       = [UpdateBooking ''booking'' accepted,
          Invoke ''send-booking-notification'' ''booking'' ''booking_accepted'']"
  by (simp add: DriverDashboard_updateBookingStatus_def part_002_updateBookingStatus_def
      update_booking_def may_update_booking_def fetchBookings_def dashboard1_def dashboard0_def
      booking0_def trip0_def Let_def)

section \<open>Append-only submissions\<close>

text \<open>
  The insert-only writers (\<open>updateLocation\<close> of the later \<open>DriverDashboard\<close> and of
  \<open>PassengerDashboard\<close>): a submission that the store accepts appends exactly one new row,
  with the actor and the position of the sample, and whatever the store answers, every row
  that was in the table is still there, unchanged and in its place.
\<close>

lemma insert_only_writers_append:
  "reply = Stored rid now \<Longrightarrow> uid = Some a \<Longrightarrow>
     \<exists>row. tbl_driver_locations (part_002_updateLocation uid c reply w)
             = tbl_driver_locations w @ [row]
          \<and> driver_id row = a \<and> latitude row = latitude c \<and> longitude row = longitude c"
  "reply = Stored rid now \<Longrightarrow> uid = Some a \<Longrightarrow>
     \<exists>row. tbl_passenger_locations (part_003_updateLocation uid c reply w)
             = tbl_passenger_locations w @ [row]
          \<and> passenger_id row = a \<and> latitude row = latitude c \<and> longitude row = longitude c"
  "take (length (tbl_driver_locations w))
     (tbl_driver_locations (part_002_updateLocation uid c reply w)) = tbl_driver_locations w"
  "take (length (tbl_passenger_locations w))
     (tbl_passenger_locations (part_003_updateLocation uid c reply w)) = tbl_passenger_locations w"
proof -
  show "reply = Stored rid now \<Longrightarrow> uid = Some a \<Longrightarrow>
     \<exists>row. tbl_driver_locations (part_002_updateLocation uid c reply w)
             = tbl_driver_locations w @ [row]
          \<and> driver_id row = a \<and> latitude row = latitude c \<and> longitude row = longitude c"
    by (simp add: part_002_updateLocation_def insert_driver_location_def Let_def)
  show "reply = Stored rid now \<Longrightarrow> uid = Some a \<Longrightarrow>
     \<exists>row. tbl_passenger_locations (part_003_updateLocation uid c reply w)
             = tbl_passenger_locations w @ [row]
          \<and> passenger_id row = a \<and> latitude row = latitude c \<and> longitude row = longitude c"
    by (simp add: part_003_updateLocation_def insert_passenger_location_def Let_def)
  show "take (length (tbl_driver_locations w))
     (tbl_driver_locations (part_002_updateLocation uid c reply w)) = tbl_driver_locations w"
    by (cases reply; cases uid)
      (simp_all add: part_002_updateLocation_def insert_driver_location_def Let_def)
  show "take (length (tbl_passenger_locations w))
     (tbl_passenger_locations (part_003_updateLocation uid c reply w)) = tbl_passenger_locations w"
    by (cases reply; cases uid)
      (simp_all add: part_003_updateLocation_def insert_passenger_location_def Let_def)
qed

text \<open>
  Claim C7, at the failing input. The writer of \<open>src/pages/DriverDashboard.tsx\<close> sends
  its sample as an upsert with \<open>onConflict: 'driver_id'\<close>. The \<open>driver_locations\<close> table
  of the migration has no unique index on \<open>driver_id\<close>, so the store refuses every such
  request, and the writer does not look at the answer: for every sample, every state and
  whatever the store would otherwise have answered, all that changes is the list of
  requests sent. No row is appended, and nothing is shown or logged. So the driver who
  starts sharing there and whose device delivers a position sees "Location sharing
  started" and has no row in the store, where the same sample on the later dashboard,
  sent as an insert, appends its row.
\<close>

theorem upsert_writer_appends_nothing:
  "DriverDashboard_updateLocation uid c
       (on_conflict_reply driver_locations_unique ''driver_id'' reply) w
     = w\<lparr>requests := requests w @ [Upsert ''driver_locations'' uid c ''driver_id'']\<rparr>
   \<and> DriverDashboard_watch (Some ''driver'') (DriverDashboard_startLocationSharing https dashboard0)
         (Position 1 here (on_conflict_reply driver_locations_unique ''driver_id'' (Stored ''r1'' 9)))
       = dashboard0\<lparr>toasts := [toast_success ''Location sharing started''],
                    requests := [Upsert ''driver_locations'' (Some ''driver'') here ''driver_id''],
                    isSharing := True, locationWatchId := Some 1, watchIDs := [1]\<rparr>
   \<and> map row_id (tbl_driver_locations
         (part_002_watch (Some ''driver'') sharing_driver (Position 1 here (Stored ''r1'' 9))))
       = [''r1'']"
proof (intro conjI)
  have refused: "on_conflict_reply driver_locations_unique ''driver_id'' r
      = Refused ''no unique or exclusion constraint matching the ON CONFLICT specification''"
    for r
    by (simp add: on_conflict_reply_def driver_locations_unique_def)
  show "DriverDashboard_updateLocation uid c
       (on_conflict_reply driver_locations_unique ''driver_id'' reply) w
     = w\<lparr>requests := requests w @ [Upsert ''driver_locations'' uid c ''driver_id'']\<rparr>"
    by (simp add: refused DriverDashboard_updateLocation_def upsert_driver_location_def)
  have s: "DriverDashboard_startLocationSharing https dashboard0
       = dashboard0\<lparr>toasts := [toast_success ''Location sharing started''],
                    isSharing := True, locationWatchId := Some 1, watchIDs := [1]\<rparr>"
    by (simp add: DriverDashboard_startLocationSharing_def watchPosition_def https_def
        dashboard0_def Let_def)
  show "DriverDashboard_watch (Some ''driver'') (DriverDashboard_startLocationSharing https dashboard0)
         (Position 1 here (on_conflict_reply driver_locations_unique ''driver_id'' (Stored ''r1'' 9)))
       = dashboard0\<lparr>toasts := [toast_success ''Location sharing started''],
                    requests := [Upsert ''driver_locations'' (Some ''driver'') here ''driver_id''],
                    isSharing := True, locationWatchId := Some 1, watchIDs := [1]\<rparr>"
    unfolding s refused
    by (simp add: DriverDashboard_watch_def DriverDashboard_updateLocation_def
        upsert_driver_location_def dashboard0_def)
  have p: "sharing_driver
      = dashboard0\<lparr>toasts := [toast_success ''Location sharing started''],
                    isSharing := True, locationWatchId := Some 1, watchIDs := [1]\<rparr>"
    by (simp add: sharing_driver_def part_002_startLocationSharing_def watchPosition_def
        https_def dashboard0_def Let_def)
  show "map row_id (tbl_driver_locations
         (part_002_watch (Some ''driver'') sharing_driver (Position 1 here (Stored ''r1'' 9))))
       = [''r1'']"
    unfolding p
    by (simp add: part_002_watch_def part_002_updateLocation_def insert_driver_location_def
        dashboard0_def Let_def)
qed

end
